theory Spec2Isabelle
  imports Main
begin

section \<open>The application store of the React Native client (app-store.tsx)\<close>

text \<open>
  A shallow embedding of the pure helpers and of the state transitions of
  \<^verbatim>\<open>src/apps/react-native/src/app/app-store.tsx\<close>.

  Conventions of the embedding.
  \<^item> A JavaScript string is a \<^typ>\<open>string\<close>: a list of code units, here the code
    units up to U+00FF, which is what \<^typ>\<open>char\<close> holds. \<open>===\<close> on strings is
    equality of the lists.
  \<^item> \<open>T | null\<close> and an optional field are \<^typ>\<open>'a option\<close>.
  \<^item> A value of type \<open>unknown\<close> (a decoded JSON payload) is a \<open>json\<close> value.
  \<^item> A timestamp is an integral number of milliseconds, as \<open>Date.now()\<close> returns:
    an \<^typ>\<open>int\<close>. On such values (below \<open>2^53\<close> in magnitude) the subtraction
    and comparison of JavaScript numbers are exact.
  \<^item> A \<open>setState\<close> updater is a function from the previous state to the next one.
\<close>

subsection \<open>Strings\<close>

text \<open>
  \<open>String.prototype.trim\<close> strips white space and line terminators from both
  ends. Among the code units up to U+00FF these are TAB, LF, VT, FF, CR, SPACE and
  NBSP.
\<close>

definition isWhiteSpace :: "char \<Rightarrow> bool" where
  "isWhiteSpace c =
     (c \<in> set [CHR 0x09, CHR 0x0A, CHR 0x0B, CHR 0x0C, CHR 0x0D, CHR 0x20, CHR 0xA0])"

definition trim :: "string \<Rightarrow> string" where
  "trim s = rev (dropWhile isWhiteSpace (rev (dropWhile isWhiteSpace s)))"

text \<open>
  \<open>String.prototype.toLowerCase\<close> on the code units up to U+00FF: \<open>A\<close>..\<open>Z\<close>
  and the Latin-1 capitals U+00C0..U+00DE (the multiplication sign U+00D7 apart) move
  up by 32.
\<close>

definition toLowerCaseChar :: "char \<Rightarrow> char" where
  "toLowerCaseChar c =
     (let n = (of_char c :: nat) in
      if (65 \<le> n \<and> n \<le> 90) \<or> (192 \<le> n \<and> n \<le> 222 \<and> n \<noteq> 215)
      then char_of (n + 32) else c)"

definition toLowerCase :: "string \<Rightarrow> string" where
  "toLowerCase s = map toLowerCaseChar s"

definition startsWith :: "string \<Rightarrow> string \<Rightarrow> bool" where
  "startsWith s p = (take (length p) s = p)"

text \<open>\<open>a || b\<close> on strings: the empty string is the only falsy string.\<close>

definition orElse :: "string \<Rightarrow> string \<Rightarrow> string" where
  "orElse a b = (if a = [] then b else a)"

text \<open>Truthiness of a \<open>string | null | undefined\<close>.\<close>

definition truthyStr :: "string option \<Rightarrow> bool" where
  "truthyStr v = (case v of None \<Rightarrow> False | Some s \<Rightarrow> s \<noteq> [])"

text \<open>
  \<open>Number.prototype.toString\<close> on an integral number (below \<open>10^21\<close> in
  magnitude): the decimal digits, with a leading minus sign for a negative one.
\<close>

definition digitChar :: "nat \<Rightarrow> char" where
  "digitChar d = char_of (48 + d)"

fun showNat :: "nat \<Rightarrow> string" where
  "showNat n = (if n < 10 then [digitChar n] else showNat (n div 10) @ [digitChar (n mod 10)])"

text \<open>The equation of \<open>showNat\<close> is recursive without a guard: it is unfolded by hand.\<close>

declare showNat.simps [simp del]

definition showInt :: "int \<Rightarrow> string" where
  "showInt i = (if i < 0 then CHR ''-'' # showNat (nat (- i)) else showNat (nat i))"

subsection \<open>Values of type unknown\<close>

datatype json =
    JNull
  | JBool bool
  | JNum int
  | JStr string
  | JArr "json list"
  | JObj "(string \<times> json) list"

text \<open>
  \<open>v.name\<close> for one of the property names read by this module (\<open>content\<close>,
  \<open>text\<close>, \<open>errorMessage\<close>, \<open>type\<close>, \<open>snapshot\<close>, ...): only an object literal
  has such a property; on an array, a string, a number or a boolean the result is
  \<open>undefined\<close>, which is \<open>None\<close>.
\<close>

fun field :: "string \<Rightarrow> json \<Rightarrow> json option" where
  "field name (JObj kvs) = map_of kvs name"
| "field name _ = None"

fun truthy :: "json \<Rightarrow> bool" where
  "truthy JNull = False"
| "truthy (JBool b) = b"
| "truthy (JNum n) = (n \<noteq> 0)"
| "truthy (JStr s) = (s \<noteq> [])"
| "truthy (JArr _) = True"
| "truthy (JObj _) = True"

text \<open>\<open>typeof v === 'object'\<close> for a truthy \<open>v\<close>: arrays and objects.\<close>

fun isObject :: "json \<Rightarrow> bool" where
  "isObject (JArr _) = True"
| "isObject (JObj _) = True"
| "isObject _ = False"

text \<open>\<open>typeof v === 'string' ? v : undefined\<close> for a possibly absent \<open>v\<close>.\<close>

fun asString :: "json option \<Rightarrow> string option" where
  "asString (Some (JStr s)) = Some s"
| "asString _ = None"

subsection \<open>Data model\<close>

datatype ChatRole = User | Assistant | System

record SessionDefaults =
  defaultAgentId :: string
  mainKey :: string
  mainSessionKey :: string
  scope :: "string option"

record ChatMessage =
  id_msg :: string
  role :: ChatRole
  text_msg :: string
  timestamp :: int

record GatewayConfigState =
  host :: string
  port :: string
  tls :: bool
  token :: string
  password :: string
  setupCode :: string

record AppState =
  phase :: string
  statusText :: string
  chatError :: "string option"
  gatewayConfig :: GatewayConfigState
  sessionDefaults :: "SessionDefaults option"
  sessionKey :: string
  sessionOptions :: "string list"
  modelOptions :: "string list"
  selectedModel :: "string option"
  chatMessages :: "ChatMessage list"
  chatStream :: string
  chatLoading :: bool
  chatSending :: bool
  chatRunId :: "string option"
  talkEnabled :: bool
  voiceWakeEnabled :: bool
  cameraEnabled :: bool
  locationEnabled :: bool
  reconnectOnLaunch :: bool
  rawEvents :: "string list"

text \<open>
  \<open>GatewayChatEventPayload\<close> (declared in the protocol module): the fields read by
  this module. \<open>state\<close> is a string at run time; \<open>message\<close> is of type unknown.
\<close>

record GatewayChatEventPayload =
  sessionKey_p :: string
  runId_p :: "string option"
  state_p :: string
  message_p :: "json option"
  errorMessage_p :: "string option"

record CapabilityConfig =
  cameraEnabled_c :: bool
  locationEnabled_c :: bool
  voiceWakeEnabled_c :: bool
  talkEnabled_c :: bool

text \<open>
  \<open>initialState\<close>. The time stamp of the welcome message is \<open>Date.now()\<close> at module
  load, a parameter here.
\<close>

definition initialState :: "int \<Rightarrow> AppState" where
  "initialState now =
     \<lparr> phase = ''offline'',
       statusText = ''Offline'',
       chatError = None,
       gatewayConfig =
         \<lparr> host = ''127.0.0.1'', port = ''18789'', tls = False,
           token = '''', password = '''', setupCode = '''' \<rparr>,
       sessionDefaults = None,
       sessionKey = ''main'',
       sessionOptions = [''main''],
       modelOptions = [],
       selectedModel = None,
       chatMessages =
         [\<lparr> id_msg = ''welcome'', role = System,
            text_msg = ''Connect to a gateway to start chat.'', timestamp = now \<rparr>],
       chatStream = '''',
       chatLoading = False,
       chatSending = False,
       chatRunId = None,
       talkEnabled = False,
       voiceWakeEnabled = False,
       cameraEnabled = True,
       locationEnabled = False,
       reconnectOnLaunch = True,
       rawEvents = [] \<rparr>"

subsection \<open>Session key normalizer\<close>

text \<open>
  \<open>parseSessionDefaults\<close>. A hello payload is an object; \<open>hello.snapshot?.sessionDefaults\<close>
  is \<open>undefined\<close> when \<open>snapshot\<close> is nullish.
\<close>

definition helloSessionDefaults :: "(string \<times> json) list \<Rightarrow> json option" where
  "helloSessionDefaults hello =
     (case map_of hello ''snapshot'' of
        None \<Rightarrow> None
      | Some JNull \<Rightarrow> None
      | Some snapshot \<Rightarrow> field ''sessionDefaults'' snapshot)"

definition trimmedStringField :: "string \<Rightarrow> json \<Rightarrow> string" where
  "trimmedStringField name v =
     (case asString (field name v) of Some s \<Rightarrow> trim s | None \<Rightarrow> '''')"

definition parseSessionDefaults :: "(string \<times> json) list \<Rightarrow> SessionDefaults option" where
  "parseSessionDefaults hello =
     (case helloSessionDefaults hello of
        None \<Rightarrow> None
      | Some defaults \<Rightarrow>
          if \<not> truthy defaults then None
          else
            let agentId = trimmedStringField ''defaultAgentId'' defaults;
                mKey = trimmedStringField ''mainKey'' defaults;
                mSessionKey = trimmedStringField ''mainSessionKey'' defaults
            in if agentId = [] \<or> mKey = [] \<or> mSessionKey = [] then None
               else
                 let sc = trimmedStringField ''scope'' defaults
                 in Some \<lparr> defaultAgentId = agentId, mainKey = mKey,
                           mainSessionKey = mSessionKey,
                           scope = (if sc = [] then None else Some sc) \<rparr>)"

definition isAlias :: "string \<Rightarrow> SessionDefaults \<Rightarrow> bool" where
  "isAlias raw d =
     (raw = ''main'' \<or>
      raw = mainKey d \<or>
      raw = ''agent:'' @ defaultAgentId d @ '':main'' \<or>
      raw = ''agent:'' @ defaultAgentId d @ '':'' @ mainKey d)"

definition normalizeSessionKeyForDefaults :: "string \<Rightarrow> SessionDefaults option \<Rightarrow> string" where
  "normalizeSessionKeyForDefaults v defaults =
     (let raw = trim v in
      if raw = [] then raw
      else case defaults of
             None \<Rightarrow> raw
           | Some d \<Rightarrow>
               if mainSessionKey d = [] then raw
               else if isAlias raw d then mainSessionKey d else raw)"

definition sessionKeysMatch :: "string \<Rightarrow> string \<Rightarrow> SessionDefaults option \<Rightarrow> bool" where
  "sessionKeysMatch left right defaults =
     (let normalizedLeft = normalizeSessionKeyForDefaults left defaults;
          normalizedRight = normalizeSessionKeyForDefaults right defaults
      in if normalizedLeft = normalizedRight then True
         else if defaults = None then
           (normalizedLeft = ''main'' \<and> normalizedRight = ''agent:main:main'') \<or>
           (normalizedLeft = ''agent:main:main'' \<and> normalizedRight = ''main'')
         else False)"

text \<open>
  \<open>normalizeSessionOptions\<close>: the loop over \<open>options\<close> with its two accumulators,
  the set \<open>seen\<close> and the list \<open>normalized\<close>.
\<close>

definition normalizeSessionOptions_step ::
  "SessionDefaults option \<Rightarrow> string set \<times> string list \<Rightarrow> string \<Rightarrow> string set \<times> string list" where
  "normalizeSessionOptions_step defaults acc option =
     (let candidate = normalizeSessionKeyForDefaults option defaults in
      if candidate = [] \<or> candidate \<in> fst acc then acc
      else (insert candidate (fst acc), snd acc @ [candidate]))"

definition normalizeSessionOptions :: "string list \<Rightarrow> SessionDefaults option \<Rightarrow> string list" where
  "normalizeSessionOptions options defaults =
     snd (foldl (normalizeSessionOptions_step defaults) ({}, []) options)"

definition resolveSessionKeyForRequest :: "AppState \<Rightarrow> string" where
  "resolveSessionKeyForRequest s =
     orElse (normalizeSessionKeyForDefaults (sessionKey s) (sessionDefaults s)) (sessionKey s)"

subsection \<open>History reconciler\<close>

definition joinLines :: "string list \<Rightarrow> string" where
  "joinLines chunks =
     (case chunks of [] \<Rightarrow> [] | c # cs \<Rightarrow> foldl (\<lambda>acc x. acc @ CHR 0x0A # x) c cs)"

text \<open>The callback mapped over the entries of an array-valued \<open>content\<close>.\<close>

definition chunkText :: "json \<Rightarrow> string option" where
  "chunkText entry =
     (if \<not> truthy entry \<or> \<not> isObject entry then None
      else if field ''type'' entry = Some (JStr ''text'') \<and> asString (field ''text'' entry) \<noteq> None
        then asString (field ''text'' entry)
      else if asString (field ''text'' entry) \<noteq> None then asString (field ''text'' entry)
      else None)"

definition contentChunks :: "json list \<Rightarrow> string list" where
  "contentChunks content =
     concat (map (\<lambda>entry. case chunkText entry of
                             None \<Rightarrow> []
                           | Some t \<Rightarrow> if length t > 0 then [t] else []) content)"

definition errorText :: "json \<Rightarrow> string" where
  "errorText item =
     (case asString (field ''errorMessage'' item) of
        None \<Rightarrow> ''''
      | Some e \<Rightarrow>
          let error = trim e in
          if length error > 0
          then (if startsWith (toLowerCase error) ''error:'' then error else ''Error: '' @ error)
          else '''')"

definition textOrError :: "json \<Rightarrow> string" where
  "textOrError item =
     (case asString (field ''text'' item) of
        Some t \<Rightarrow> t
      | None \<Rightarrow> errorText item)"

definition extractTextFromMessageObject :: "json \<Rightarrow> string" where
  "extractTextFromMessageObject item =
     (case field ''content'' item of
        Some (JStr content) \<Rightarrow> content
      | Some (JArr content) \<Rightarrow>
          let chunks = contentChunks content in
          if length chunks > 0 then joinLines chunks else textOrError item
      | _ \<Rightarrow> textOrError item)"

definition roleName :: "ChatRole \<Rightarrow> string" where
  "roleName r = (case r of User \<Rightarrow> ''user'' | Assistant \<Rightarrow> ''assistant'' | System \<Rightarrow> ''system'')"

text \<open>The key \<open>`${message.role}|${message.timestamp}|${text}`\<close> of the dedup loop.\<close>

definition messageKey :: "ChatMessage \<Rightarrow> string" where
  "messageKey message =
     roleName (role message) @ ''|'' @ showInt (timestamp message) @ ''|'' @ trim (text_msg message)"

text \<open>The test against \<open>previous\<close>, the last message kept so far.\<close>

definition nearDuplicate :: "ChatMessage \<Rightarrow> ChatMessage \<Rightarrow> bool" where
  "nearDuplicate message previous =
     (let text = trim (text_msg message);
          previousText = trim (text_msg previous);
          nearDuplicateWindowMs = 30000;
          closeInTime = (\<bar>timestamp message - timestamp previous\<bar> \<le> nearDuplicateWindowMs)
      in role message = role previous \<and> role message \<noteq> User \<and> length text > 0 \<and>
         text = previousText \<and> closeInTime)"

text \<open>
  One round of the loop of \<open>dedupeChatMessages\<close> on its accumulators \<open>seen\<close> and
  \<open>deduped\<close>. \<open>deduped[deduped.length - 1]\<close> is \<open>undefined\<close> on the empty list.
\<close>

definition dedupe_step :: "string set \<times> ChatMessage list \<Rightarrow> ChatMessage \<Rightarrow> string set \<times> ChatMessage list" where
  "dedupe_step acc message =
     (let seen = fst acc; deduped = snd acc; key = messageKey message in
      if key \<in> seen then acc
      else if deduped \<noteq> [] \<and> nearDuplicate message (last deduped) then acc
      else (insert key seen, deduped @ [message]))"

definition dedupeChatMessages :: "ChatMessage list \<Rightarrow> ChatMessage list" where
  "dedupeChatMessages messages = snd (foldl dedupe_step ({}, []) messages)"

definition formatModelRef :: "json option \<Rightarrow> json option \<Rightarrow> string option" where
  "formatModelRef provider model =
     (let normalizedProvider = (case asString provider of Some p \<Rightarrow> trim p | None \<Rightarrow> '''');
          normalizedModel = (case asString model of Some m \<Rightarrow> trim m | None \<Rightarrow> '''')
      in if normalizedProvider = [] \<or> normalizedModel = [] then None
         else Some (normalizedProvider @ ''/'' @ normalizedModel))"

subsection \<open>Chat run state machine\<close>

definition buildCapabilityConfig :: "AppState \<Rightarrow> CapabilityConfig" where
  "buildCapabilityConfig s =
     \<lparr> cameraEnabled_c = cameraEnabled s,
       locationEnabled_c = locationEnabled s,
       voiceWakeEnabled_c = voiceWakeEnabled s,
       talkEnabled_c = talkEnabled s \<rparr>"

text \<open>\<open>Boolean(payload.runId && state.chatRunId && payload.runId !== state.chatRunId)\<close>\<close>

definition isForeignRun :: "AppState \<Rightarrow> GatewayChatEventPayload \<Rightarrow> bool" where
  "isForeignRun s payload =
     (truthyStr (runId_p payload) \<and> truthyStr (chatRunId s) \<and> runId_p payload \<noteq> chatRunId s)"

definition deltaText :: "AppState \<Rightarrow> GatewayChatEventPayload \<Rightarrow> string" where
  "deltaText s payload =
     (case message_p payload of
        None \<Rightarrow> chatStream s
      | Some m \<Rightarrow>
          if truthy m \<and> isObject m
          then orElse (extractTextFromMessageObject m) (chatStream s)
          else chatStream s)"

definition applyChatEvent :: "AppState \<Rightarrow> GatewayChatEventPayload \<Rightarrow> AppState" where
  "applyChatEvent s payload =
     (if \<not> sessionKeysMatch (sessionKey_p payload) (sessionKey s) (sessionDefaults s) then s
      else if state_p payload = ''delta'' then
        (if isForeignRun s payload then s
         else s\<lparr> chatStream := deltaText s payload, chatError := None \<rparr>)
      else if state_p payload = ''final'' then
        (if isForeignRun s payload then s\<lparr> chatError := None \<rparr>
         else s\<lparr> chatStream := '''', chatRunId := None, chatSending := False, chatError := None \<rparr>)
      else if state_p payload = ''aborted'' then
        (if isForeignRun s payload then s
         else s\<lparr> chatStream := '''', chatRunId := None, chatSending := False, chatError := None \<rparr>)
      else if state_p payload = ''error'' then
        (if isForeignRun s payload then s
         else
           let errorMessage = (case errorMessage_p payload of None \<Rightarrow> ''Chat error'' | Some e \<Rightarrow> e)
           in s\<lparr> chatStream := '''', chatRunId := None, chatSending := False,
                 statusText := errorMessage, chatError := Some errorMessage \<rparr>)
      else s)"

subsection \<open>Credential persistence\<close>

text \<open>
  The effect that persists the gateway configuration. A store call is recorded with
  the object handed to \<open>JSON.stringify\<close>; a rejected store promise is caught and
  logged, and changes nothing else. \<open>hydrated\<close> is \<open>gatewayConfigHydratedRef.current\<close>.
\<close>

record GatewaySecrets =
  token_s :: string
  password_s :: string

datatype StoreCall =
    AsyncStorage_setItem string GatewayConfigState
  | SecureStore_deleteItemAsync string
  | SecureStore_setItemAsync string GatewaySecrets

definition gatewayConfigStorageKey :: string where
  "gatewayConfigStorageKey = ''openclaw.mobile.gateway.config.v1''"

definition gatewaySecretsStorageKey :: string where
  "gatewaySecretsStorageKey = ''openclaw.mobile.gateway.secrets.v1''"

definition persistGatewayConfig :: "bool \<Rightarrow> AppState \<Rightarrow> StoreCall list" where
  "persistGatewayConfig hydrated s =
     (if \<not> hydrated then []
      else
        let payload = (gatewayConfig s)\<lparr> token := '''', password := '''', setupCode := '''' \<rparr>;
            secrets = \<lparr> token_s = token (gatewayConfig s), password_s = password (gatewayConfig s) \<rparr>
        in if token_s secrets = [] \<and> password_s secrets = []
           then [AsyncStorage_setItem gatewayConfigStorageKey payload,
                 SecureStore_deleteItemAsync gatewaySecretsStorageKey]
           else [AsyncStorage_setItem gatewayConfigStorageKey payload,
                 SecureStore_setItemAsync gatewaySecretsStorageKey secrets])"

subsection \<open>Capability reconnection\<close>

text \<open>
  \<open>setTalkEnabled\<close>. The collaborators are parameters: whether \<open>managerRef.current\<close>
  and the operator client exist, how the \<open>talk.mode\<close> request and the reconnect
  settle (\<open>Inl\<close> carries \<open>normalizeGatewayMessage\<close> of the rejection), and the value of
  \<open>stateRef.current\<close> when the reconnect is issued. The calls made to the
  collaborators are returned in order. The result is \<open>Inr\<close> when the promise of the
  action resolves and \<open>Inl\<close> when it rejects.
\<close>

datatype GatewayCall =
    ClientRequest string bool nat
  | ReconnectWithCapabilities CapabilityConfig

record TalkEnv =
  managerAvailable :: bool
  clientAvailable :: bool
  talkModeResult :: "string + unit"
  reconnectResult :: "string + unit"
  stateRefCurrent :: AppState

text \<open>The \<open>try\<close> block: the message of what it throws, if anything, and the calls made.\<close>

definition talkTryBlock :: "bool \<Rightarrow> TalkEnv \<Rightarrow> string option \<times> GatewayCall list" where
  "talkTryBlock enabled env =
     (let request = ClientRequest ''talk.mode'' enabled 8000 in
      case talkModeResult env of
        Inl err \<Rightarrow> (Some err, [request])
      | Inr _ \<Rightarrow>
          let reconnect =
                ReconnectWithCapabilities
                  (buildCapabilityConfig ((stateRefCurrent env)\<lparr> talkEnabled := enabled \<rparr>))
          in case reconnectResult env of
               Inl err \<Rightarrow> (Some err, [request, reconnect])
             | Inr _ \<Rightarrow> (None, [request, reconnect]))"

definition setTalkEnabled :: "bool \<Rightarrow> TalkEnv \<Rightarrow> AppState \<Rightarrow> string + AppState \<times> GatewayCall list" where
  "setTalkEnabled enabled env prev =
     (let flipped = prev\<lparr> talkEnabled := enabled \<rparr> in
      if \<not> managerAvailable env \<or> \<not> clientAvailable env then Inr (flipped, [])
      else case talkTryBlock enabled env of
             (Some err, calls) \<Rightarrow> Inr (flipped\<lparr> statusText := err \<rparr>, calls)
           | (None, calls) \<Rightarrow> Inr (flipped, calls))"

subsection \<open>Session orchestration\<close>

text \<open>The updater of \<open>onHello\<close>, with its two early returns.\<close>

definition onHello :: "(string \<times> json) list \<Rightarrow> string \<Rightarrow> AppState \<Rightarrow> AppState" where
  "onHello hello hrole prev =
     (if hrole \<noteq> ''operator'' then prev
      else case parseSessionDefaults hello of
             None \<Rightarrow> prev
           | Some defaults \<Rightarrow>
               let nextSessionKey =
                     orElse (normalizeSessionKeyForDefaults (sessionKey prev) (Some defaults))
                            (sessionKey prev);
                   normalizedOptions = normalizeSessionOptions (sessionOptions prev) (Some defaults);
                   nextOptions =
                     (if nextSessionKey \<in> set normalizedOptions then normalizedOptions
                      else nextSessionKey # normalizedOptions)
               in prev\<lparr> sessionDefaults := Some defaults,
                        sessionKey := nextSessionKey,
                        sessionOptions :=
                          (if length nextOptions > 0 then nextOptions else [nextSessionKey]) \<rparr>)"

text \<open>
  \<open>setSessionKey\<close>: \<open>current\<close> is \<open>stateRef.current\<close>, \<open>prev\<close> the state the updater
  receives. The refresh of the session list that follows is a step of its own.
\<close>

definition setSessionKey :: "string \<Rightarrow> AppState \<Rightarrow> AppState \<Rightarrow> AppState" where
  "setSessionKey key current prev =
     (let nextKey =
            orElse (normalizeSessionKeyForDefaults (orElse (trim key) ''main'') (sessionDefaults current))
                   ''main''
      in prev\<lparr> sessionKey := nextKey \<rparr>)"

text \<open>
  \<open>refreshSessions\<close>. A row of the \<open>sessions.list\<close> response is an object. The
  request is skipped without an operator client, and a rejected request is swallowed.
\<close>

definition rowKey :: "(string \<times> json) list \<Rightarrow> string" where
  "rowKey session = (case asString (map_of session ''key'') of Some k \<Rightarrow> k | None \<Rightarrow> '''')"

definition refreshSessionsUpdate ::
  "SessionDefaults option \<Rightarrow> (string \<times> json) list list \<Rightarrow> AppState \<Rightarrow> AppState" where
  "refreshSessionsUpdate refDefaults sessionRows prev =
     (let options = filter (\<lambda>key. length key > 0) (map rowKey sessionRows);
          normalized = normalizeSessionOptions options refDefaults;
          currentKey =
            orElse (normalizeSessionKeyForDefaults (sessionKey prev) (sessionDefaults prev))
                   (sessionKey prev);
          candidate = (if length normalized > 0 then normalized else sessionOptions prev);
          currentRow =
            find (\<lambda>session. length (rowKey session) > 0 \<and>
                             sessionKeysMatch (rowKey session) currentKey (sessionDefaults prev))
                 sessionRows;
          currentModel =
            (case currentRow of
               None \<Rightarrow> formatModelRef None None
             | Some r \<Rightarrow> formatModelRef (map_of r ''modelProvider'') (map_of r ''model''))
      in prev\<lparr> sessionKey := currentKey,
               sessionOptions := (if currentKey \<in> set candidate then candidate else currentKey # candidate),
               selectedModel := (case currentModel of None \<Rightarrow> selectedModel prev | Some m \<Rightarrow> Some m) \<rparr>)"

definition refreshSessions ::
  "bool \<Rightarrow> string + (string \<times> json) list list \<Rightarrow> AppState \<Rightarrow> AppState \<Rightarrow> AppState" where
  "refreshSessions clientAvail response current prev =
     (if \<not> clientAvail then prev
      else case response of
             Inl _ \<Rightarrow> prev
           | Inr sessionRows \<Rightarrow> refreshSessionsUpdate (sessionDefaults current) sessionRows prev)"

text \<open>
  The states the store reaches from the initial one by \<open>setSessionKey\<close>, \<open>onHello\<close>
  and \<open>refreshSessions\<close>, each transition committed before the next one starts (so
  \<open>stateRef.current\<close> is the state itself).
\<close>

inductive reachable :: "int \<Rightarrow> AppState \<Rightarrow> bool" for now :: int where
  reach_init: "reachable now (initialState now)"
| reach_setSessionKey: "reachable now s \<Longrightarrow> reachable now (setSessionKey key s s)"
| reach_onHello: "reachable now s \<Longrightarrow> reachable now (onHello hello hrole s)"
| reach_refreshSessions: "reachable now s \<Longrightarrow> reachable now (refreshSessions avail response s s)"

text \<open>
  The same, with \<open>setSessionKey\<close> called as the session rail of the chat screen calls
  it: on one of the keys of \<open>sessionOptions\<close>.
\<close>

inductive reachableByRail :: "int \<Rightarrow> AppState \<Rightarrow> bool" for now :: int where
  rail_init: "reachableByRail now (initialState now)"
| rail_setSessionKey:
    "reachableByRail now s \<Longrightarrow> key \<in> set (sessionOptions s) \<Longrightarrow>
     reachableByRail now (setSessionKey key s s)"
| rail_onHello: "reachableByRail now s \<Longrightarrow> reachableByRail now (onHello hello hrole s)"
| rail_refreshSessions:
    "reachableByRail now s \<Longrightarrow> reachableByRail now (refreshSessions avail response s s)"

text \<open>
  Session defaults whose \<open>mainSessionKey\<close> carries no white space at either end.
  \<open>parseSessionDefaults\<close>, the only producer of session defaults in the store, trims
  every field.
\<close>

definition trimmedDefaults :: "SessionDefaults option \<Rightarrow> bool" where
  "trimmedDefaults defaults =
     (case defaults of None \<Rightarrow> True | Some d \<Rightarrow> trim (mainSessionKey d) = mainSessionKey d)"

text \<open>
  The invariant of the store behind the session rail: the session defaults are
  trimmed, the current key and every option are canonical (non-empty and fixed by
  normalization under the current defaults), and the current key is one of the options.
\<close>

definition canonicalKey :: "SessionDefaults option \<Rightarrow> string \<Rightarrow> bool" where
  "canonicalKey d k = (k \<noteq> [] \<and> normalizeSessionKeyForDefaults k d = k)"

definition storeInv :: "AppState \<Rightarrow> bool" where
  "storeInv s =
     (trimmedDefaults (sessionDefaults s) \<and>
      canonicalKey (sessionDefaults s) (sessionKey s) \<and>
      list_all (canonicalKey (sessionDefaults s)) (sessionOptions s) \<and>
      sessionKey s \<in> set (sessionOptions s))"

section \<open>Properties\<close>

subsection \<open>Trimming\<close>

lemma trim_Nil: "trim [] = []"
  by (simp add: trim_def)

lemma trim_idem: "trim (trim s) = trim s"
proof -
  define t where "t = dropWhile isWhiteSpace s"
  define u where "u = dropWhile isWhiteSpace (rev t)"
  have ts: "trim s = rev u"
    by (simp add: trim_def t_def u_def)
  have "dropWhile isWhiteSpace (rev u) = rev u"
  proof (cases "u = []")
    case True
    then show ?thesis by simp
  next
    case False
    then have tne: "t \<noteq> []" by (auto simp: u_def)
    then have ht: "\<not> isWhiteSpace (hd t)" unfolding t_def by (rule hd_dropWhile)
    have "hd t \<in> set (rev t)" using tne by simp
    then have "last u = last (rev t)" unfolding u_def using ht by (rule dropWhile_last)
    also have "\<dots> = hd t" using tne by (simp add: last_rev)
    finally have "\<not> isWhiteSpace (hd (rev u))" using False ht by (simp add: hd_rev)
    then show ?thesis by (simp add: dropWhile_eq_self_iff)
  qed
  moreover have "dropWhile isWhiteSpace u = u" unfolding u_def by (rule dropWhile_idem)
  ultimately have "trim (rev u) = rev u" by (simp add: trim_def)
  then show ?thesis by (simp add: ts)
qed

lemma parseSessionDefaults_trimmed:
  "parseSessionDefaults hello = Some d \<Longrightarrow>
   trim (mainSessionKey d) = mainSessionKey d \<and> mainSessionKey d \<noteq> []"
  by (auto simp: parseSessionDefaults_def Let_def trimmedStringField_def trim_idem
           split: option.splits if_splits)

lemma normalize_idem:
  assumes "trimmedDefaults defaults"
  shows "normalizeSessionKeyForDefaults (normalizeSessionKeyForDefaults k defaults) defaults
       = normalizeSessionKeyForDefaults k defaults"
  using assms
  by (auto simp: normalizeSessionKeyForDefaults_def Let_def trim_idem trim_Nil trimmedDefaults_def
           split: option.splits)

subsection \<open>Session key normalizer\<close>

text \<open>
  C8. The match relation is symmetric: for all keys \<open>a\<close> and \<open>b\<close> and all defaults
  \<open>d\<close>, absent or present, \<open>sessionKeysMatch a b d\<close> and \<open>sessionKeysMatch b a d\<close>
  are the same truth value.
\<close>

theorem sessionKeysMatch_symmetric:
  "sessionKeysMatch a b d = sessionKeysMatch b a d"
  by (auto simp: sessionKeysMatch_def Let_def)

text \<open>
  C9, as stated, fails: with a \<open>mainSessionKey\<close> that starts with a space, the alias
  \<open>main\<close> is sent to that key, and normalizing the result trims it.
\<close>

theorem normalize_not_idempotent_untrimmed_defaults:
  "normalizeSessionKeyForDefaults
     (normalizeSessionKeyForDefaults ''main''
        (Some \<lparr> defaultAgentId = ''a'', mainKey = ''k'', mainSessionKey = '' x'', scope = None \<rparr>))
     (Some \<lparr> defaultAgentId = ''a'', mainKey = ''k'', mainSessionKey = '' x'', scope = None \<rparr>)
   \<noteq> normalizeSessionKeyForDefaults ''main''
        (Some \<lparr> defaultAgentId = ''a'', mainKey = ''k'', mainSessionKey = '' x'', scope = None \<rparr>)"
  by (simp add: normalizeSessionKeyForDefaults_def Let_def trim_def isWhiteSpace_def isAlias_def)

text \<open>
  C9, amended. Normalization is idempotent for every key and for all defaults that are
  absent or whose \<open>mainSessionKey\<close> has no white space at either end, which is the case
  of every defaults value \<open>parseSessionDefaults\<close> builds.
\<close>

theorem normalize_idempotent:
  assumes "trimmedDefaults d"
  shows "normalizeSessionKeyForDefaults (normalizeSessionKeyForDefaults k d) d
       = normalizeSessionKeyForDefaults k d"
  using assms by (rule normalize_idem)

theorem normalize_idempotent_witness:
  "trimmedDefaults
     (Some \<lparr> defaultAgentId = ''a'', mainKey = ''k'', mainSessionKey = ''agent:a:k'', scope = None \<rparr>) \<and>
   normalizeSessionKeyForDefaults
     (normalizeSessionKeyForDefaults '' main ''
        (Some \<lparr> defaultAgentId = ''a'', mainKey = ''k'', mainSessionKey = ''agent:a:k'', scope = None \<rparr>))
     (Some \<lparr> defaultAgentId = ''a'', mainKey = ''k'', mainSessionKey = ''agent:a:k'', scope = None \<rparr>)
   = ''agent:a:k''"
proof -
  let ?d = "Some \<lparr> defaultAgentId = ''a'', mainKey = ''k'', mainSessionKey = ''agent:a:k'', scope = None \<rparr>"
  have h: "trimmedDefaults ?d"
    by (simp add: trimmedDefaults_def trim_def isWhiteSpace_def)
  have v: "normalizeSessionKeyForDefaults '' main '' ?d = ''agent:a:k''"
    by (simp add: normalizeSessionKeyForDefaults_def Let_def trim_def isWhiteSpace_def isAlias_def)
  from normalize_idempotent [OF h, of "'' main ''"] h v show ?thesis by simp
qed

subsection \<open>Chat run state machine\<close>

lemma initial_sessionKey: "sessionKey (initialState now) = ''main''"
  by (simp add: initialState_def)

lemma initial_sessionDefaults: "sessionDefaults (initialState now) = None"
  by (simp add: initialState_def)

lemma match_main_main_None: "sessionKeysMatch ''main'' ''main'' None"
  by (simp add: sessionKeysMatch_def)

lemma no_match_other_main_None: "\<not> sessionKeysMatch ''other'' ''main'' None"
  by (simp add: sessionKeysMatch_def normalizeSessionKeyForDefaults_def Let_def trim_def isWhiteSpace_def)

lemma match_initial_main:
  "sessionKeysMatch ''main'' (sessionKey ((initialState 0)\<lparr> chatRunId := r, chatError := e \<rparr>))
     (sessionDefaults ((initialState 0)\<lparr> chatRunId := r, chatError := e \<rparr>))"
  by (simp add: initial_sessionKey initial_sessionDefaults match_main_main_None)

text \<open>
  C2. A chat event whose \<open>sessionKey\<close> does not match the current session key under
  the session defaults of the state leaves the state as it is, whatever its \<open>state\<close>,
  \<open>runId\<close>, \<open>message\<close> and \<open>errorMessage\<close> are.
\<close>

theorem applyChatEvent_other_session_unchanged:
  assumes "\<not> sessionKeysMatch (sessionKey_p p) (sessionKey s) (sessionDefaults s)"
  shows "applyChatEvent s p = s"
  using assms by (simp add: applyChatEvent_def)

theorem applyChatEvent_other_session_unchanged_witness:
  "\<not> sessionKeysMatch ''other'' (sessionKey (initialState 0)) (sessionDefaults (initialState 0)) \<and>
   applyChatEvent (initialState 0)
     \<lparr> sessionKey_p = ''other'', runId_p = None, state_p = ''final'',
       message_p = None, errorMessage_p = None \<rparr> = initialState 0"
proof -
  have h: "\<not> sessionKeysMatch ''other'' (sessionKey (initialState 0)) (sessionDefaults (initialState 0))"
    by (simp add: initial_sessionKey initial_sessionDefaults no_match_other_main_None)
  from h applyChatEvent_other_session_unchanged
         [of "\<lparr> sessionKey_p = ''other'', runId_p = None, state_p = ''final'',
               message_p = None, errorMessage_p = None \<rparr>" "initialState 0"]
  show ?thesis by simp
qed

text \<open>
  C4. A chat event of the current session whose run id is set (a non-empty string, which
  is what the truthiness test of the code asks) and differs from the run id the state
  holds leaves \<open>chatStream\<close> and \<open>chatRunId\<close> as they are, whatever its \<open>state\<close>.
\<close>

theorem applyChatEvent_foreign_keeps_stream_and_run:
  assumes "sessionKeysMatch (sessionKey_p p) (sessionKey s) (sessionDefaults s)"
    and "truthyStr (runId_p p)"
    and "truthyStr (chatRunId s)"
    and "runId_p p \<noteq> chatRunId s"
  shows "chatStream (applyChatEvent s p) = chatStream s \<and>
         chatRunId (applyChatEvent s p) = chatRunId s"
  using assms by (simp add: applyChatEvent_def isForeignRun_def)

theorem applyChatEvent_foreign_keeps_stream_and_run_witness:
  "chatStream (applyChatEvent ((initialState 0)\<lparr> chatRunId := Some ''run-1'', chatError := None \<rparr>)
     \<lparr> sessionKey_p = ''main'', runId_p = Some ''run-2'', state_p = ''final'',
       message_p = None, errorMessage_p = None \<rparr>) = [] \<and>
   chatRunId (applyChatEvent ((initialState 0)\<lparr> chatRunId := Some ''run-1'', chatError := None \<rparr>)
     \<lparr> sessionKey_p = ''main'', runId_p = Some ''run-2'', state_p = ''final'',
       message_p = None, errorMessage_p = None \<rparr>) = Some ''run-1''"
proof -
  let ?s = "(initialState 0)\<lparr> chatRunId := Some ''run-1'', chatError := None \<rparr>"
  let ?p = "\<lparr> sessionKey_p = ''main'', runId_p = Some ''run-2'', state_p = ''final'',
              message_p = None, errorMessage_p = None \<rparr>"
  have m: "sessionKeysMatch (sessionKey_p ?p) (sessionKey ?s) (sessionDefaults ?s)"
    using match_initial_main [of "Some ''run-1''" None] by simp
  have r: "truthyStr (runId_p ?p)" "truthyStr (chatRunId ?s)" "runId_p ?p \<noteq> chatRunId ?s"
    by (simp_all add: truthyStr_def)
  have c: "chatStream ?s = []" by (simp add: initialState_def)
  from applyChatEvent_foreign_keeps_stream_and_run [OF m r] c show ?thesis by simp
qed

text \<open>
  C1, as stated, fails for \<open>final\<close>: a foreign \<open>final\<close> event clears \<open>chatError\<close>.
\<close>

theorem applyChatEvent_foreign_final_clears_chatError:
  "sessionKeysMatch ''main''
     (sessionKey ((initialState 0)\<lparr> chatRunId := Some ''run-1'', chatError := Some ''boom'' \<rparr>))
     (sessionDefaults ((initialState 0)\<lparr> chatRunId := Some ''run-1'', chatError := Some ''boom'' \<rparr>)) \<and>
   truthyStr (Some ''run-2'') \<and>
   truthyStr (chatRunId ((initialState 0)\<lparr> chatRunId := Some ''run-1'', chatError := Some ''boom'' \<rparr>)) \<and>
   Some ''run-2'' \<noteq> chatRunId ((initialState 0)\<lparr> chatRunId := Some ''run-1'', chatError := Some ''boom'' \<rparr>) \<and>
   applyChatEvent ((initialState 0)\<lparr> chatRunId := Some ''run-1'', chatError := Some ''boom'' \<rparr>)
     \<lparr> sessionKey_p = ''main'', runId_p = Some ''run-2'', state_p = ''final'',
       message_p = None, errorMessage_p = None \<rparr>
   \<noteq> (initialState 0)\<lparr> chatRunId := Some ''run-1'', chatError := Some ''boom'' \<rparr>"
proof -
  let ?s = "(initialState 0)\<lparr> chatRunId := Some ''run-1'', chatError := Some ''boom'' \<rparr>"
  let ?p = "\<lparr> sessionKey_p = ''main'', runId_p = Some ''run-2'', state_p = ''final'',
              message_p = None, errorMessage_p = None \<rparr>"
  have m: "sessionKeysMatch ''main'' (sessionKey ?s) (sessionDefaults ?s)"
    by (rule match_initial_main)
  have "chatError (applyChatEvent ?s ?p) = None"
    using m by (simp add: applyChatEvent_def isForeignRun_def truthyStr_def)
  moreover have "chatError ?s = Some ''boom''" by simp
  ultimately have "applyChatEvent ?s ?p \<noteq> ?s" by (metis option.distinct(1))
  with m show ?thesis by (simp add: truthyStr_def)
qed

text \<open>
  C1, amended. A foreign chat event of the current session is dropped outright when
  its \<open>state\<close> is \<open>delta\<close>, \<open>aborted\<close> or \<open>error\<close>; when it is \<open>final\<close> the
  only field that changes is \<open>chatError\<close>, which is cleared.
\<close>

theorem applyChatEvent_foreign_dropped:
  assumes "sessionKeysMatch (sessionKey_p p) (sessionKey s) (sessionDefaults s)"
    and "truthyStr (runId_p p)"
    and "truthyStr (chatRunId s)"
    and "runId_p p \<noteq> chatRunId s"
  shows "(state_p p \<in> {''delta'', ''aborted'', ''error''} \<longrightarrow> applyChatEvent s p = s) \<and>
         (state_p p = ''final'' \<longrightarrow> applyChatEvent s p = s\<lparr> chatError := None \<rparr>)"
  using assms by (auto simp add: applyChatEvent_def isForeignRun_def)

theorem applyChatEvent_foreign_dropped_witness:
  "applyChatEvent ((initialState 0)\<lparr> chatRunId := Some ''run-1'', chatError := Some ''boom'' \<rparr>)
     \<lparr> sessionKey_p = ''main'', runId_p = Some ''run-2'', state_p = ''aborted'',
       message_p = None, errorMessage_p = None \<rparr>
   = (initialState 0)\<lparr> chatRunId := Some ''run-1'', chatError := Some ''boom'' \<rparr> \<and>
   applyChatEvent ((initialState 0)\<lparr> chatRunId := Some ''run-1'', chatError := Some ''boom'' \<rparr>)
     \<lparr> sessionKey_p = ''main'', runId_p = Some ''run-2'', state_p = ''final'',
       message_p = None, errorMessage_p = None \<rparr>
   = (initialState 0)\<lparr> chatRunId := Some ''run-1'', chatError := None \<rparr>"
proof -
  let ?s = "(initialState 0)\<lparr> chatRunId := Some ''run-1'', chatError := Some ''boom'' \<rparr>"
  let ?pa = "\<lparr> sessionKey_p = ''main'', runId_p = Some ''run-2'', state_p = ''aborted'',
               message_p = None, errorMessage_p = None \<rparr>"
  let ?pf = "\<lparr> sessionKey_p = ''main'', runId_p = Some ''run-2'', state_p = ''final'',
               message_p = None, errorMessage_p = None \<rparr>"
  have m: "sessionKeysMatch ''main'' (sessionKey ?s) (sessionDefaults ?s)"
    by (rule match_initial_main)
  have a: "applyChatEvent ?s ?pa = ?s"
    using applyChatEvent_foreign_dropped [of ?pa ?s] m by (simp add: truthyStr_def)
  have f: "applyChatEvent ?s ?pf = ?s\<lparr> chatError := None \<rparr>"
    using applyChatEvent_foreign_dropped [of ?pf ?s] m by (simp add: truthyStr_def)
  from a f show ?thesis by simp
qed

text \<open>
  C10. \<open>applyChatEvent\<close> changes at most \<open>chatStream\<close>, \<open>chatRunId\<close>,
  \<open>chatSending\<close>, \<open>chatError\<close> and \<open>statusText\<close>: the fifteen other fields of the
  state are returned as they were, and an event whose \<open>state\<close> is none of \<open>delta\<close>,
  \<open>final\<close>, \<open>aborted\<close>, \<open>error\<close> leaves the whole state unchanged.
\<close>

theorem applyChatEvent_frame:
  "phase (applyChatEvent s p) = phase s \<and>
   gatewayConfig (applyChatEvent s p) = gatewayConfig s \<and>
   sessionDefaults (applyChatEvent s p) = sessionDefaults s \<and>
   sessionKey (applyChatEvent s p) = sessionKey s \<and>
   sessionOptions (applyChatEvent s p) = sessionOptions s \<and>
   modelOptions (applyChatEvent s p) = modelOptions s \<and>
   selectedModel (applyChatEvent s p) = selectedModel s \<and>
   chatMessages (applyChatEvent s p) = chatMessages s \<and>
   chatLoading (applyChatEvent s p) = chatLoading s \<and>
   talkEnabled (applyChatEvent s p) = talkEnabled s \<and>
   voiceWakeEnabled (applyChatEvent s p) = voiceWakeEnabled s \<and>
   cameraEnabled (applyChatEvent s p) = cameraEnabled s \<and>
   locationEnabled (applyChatEvent s p) = locationEnabled s \<and>
   reconnectOnLaunch (applyChatEvent s p) = reconnectOnLaunch s \<and>
   rawEvents (applyChatEvent s p) = rawEvents s \<and>
   (state_p p \<notin> {''delta'', ''final'', ''aborted'', ''error''} \<longrightarrow> applyChatEvent s p = s)"
  by (simp add: applyChatEvent_def Let_def)

theorem applyChatEvent_frame_witness:
  "applyChatEvent (initialState 0)
     \<lparr> sessionKey_p = ''main'', runId_p = None, state_p = ''started'',
       message_p = None, errorMessage_p = None \<rparr> = initialState 0"
  using applyChatEvent_frame
          [of "initialState 0"
              "\<lparr> sessionKey_p = ''main'', runId_p = None, state_p = ''started'',
                 message_p = None, errorMessage_p = None \<rparr>"]
  by simp

subsection \<open>History reconciler\<close>

text \<open>Decimal printing is injective, so two keys of the dedup loop with different time stamps differ.\<close>

lemma digitChar_inj: "a < 10 \<Longrightarrow> b < 10 \<Longrightarrow> digitChar a = digitChar b \<Longrightarrow> a = b"
  by (simp add: digitChar_def char_of_eq_iff take_bit_eq_mod)

lemma showNat_not_Nil: "showNat n \<noteq> []"
  by (subst showNat.simps) simp

lemma showNat_inj: "showNat a = showNat b \<Longrightarrow> a = b"
proof (induction a arbitrary: b rule: showNat.induct)
  case (1 n)
  show ?case
  proof (cases "n < 10")
    case True
    show ?thesis
    proof (cases "b < 10")
      case True
      with \<open>n < 10\<close> "1.prems" show ?thesis
        by (simp add: showNat.simps [of n] showNat.simps [of b] digitChar_inj)
    next
      case False
      with \<open>n < 10\<close> "1.prems" show ?thesis
        by (simp add: showNat.simps [of n] showNat.simps [of b] showNat_not_Nil [THEN not_sym])
    qed
  next
    case False
    show ?thesis
    proof (cases "b < 10")
      case True
      with \<open>\<not> n < 10\<close> "1.prems" show ?thesis
        by (simp add: showNat.simps [of n] showNat.simps [of b] showNat_not_Nil)
    next
      case bge: False
      from False bge "1.prems"
      have e: "showNat (n div 10) = showNat (b div 10)" "digitChar (n mod 10) = digitChar (b mod 10)"
        by (simp_all add: showNat.simps [of n] showNat.simps [of b])
      from "1.IH" [OF False e(1)] have "n div 10 = b div 10" .
      moreover from e(2) have "n mod 10 = b mod 10" by (simp add: digitChar_inj)
      ultimately show ?thesis by (metis div_mult_mod_eq)
    qed
  qed
qed

lemma showNat_no_minus: "CHR ''-'' \<notin> set (showNat n)"
proof (induction n rule: showNat.induct)
  case (1 n)
  have d: "digitChar (n mod 10) \<noteq> CHR ''-''" "n < 10 \<Longrightarrow> digitChar n \<noteq> CHR ''-''"
    by (simp_all add: digitChar_def char_of_eq_iff take_bit_eq_mod)
  show ?case
    using 1 d by (subst showNat.simps) auto
qed

lemma showInt_inj: "showInt i = showInt j \<Longrightarrow> i = j"
proof -
  assume e: "showInt i = showInt j"
  have hd: "\<And>n. hd (showNat n) \<noteq> CHR ''-''"
    using showNat_no_minus showNat_not_Nil by (metis hd_in_set)
  show ?thesis
  proof (cases "i < 0"; cases "j < 0")
    assume "i < 0" "j < 0"
    with e have "nat (- i) = nat (- j)" by (simp add: showInt_def showNat_inj)
    with \<open>i < 0\<close> \<open>j < 0\<close> show ?thesis by simp
  next
    assume "i < 0" "\<not> j < 0"
    with e have "CHR ''-'' # showNat (nat (- i)) = showNat (nat j)" by (simp add: showInt_def)
    then have "hd (showNat (nat j)) = CHR ''-''" by (metis list.sel(1))
    with hd show ?thesis by blast
  next
    assume "\<not> i < 0" "j < 0"
    with e have "showNat (nat i) = CHR ''-'' # showNat (nat (- j))" by (simp add: showInt_def)
    then have "hd (showNat (nat i)) = CHR ''-''" by (metis list.sel(1))
    with hd show ?thesis by blast
  next
    assume "\<not> i < 0" "\<not> j < 0"
    with e have "nat i = nat j" by (simp add: showInt_def showNat_inj)
    with \<open>\<not> i < 0\<close> \<open>\<not> j < 0\<close> show ?thesis by simp
  qed
qed

lemma dedupe_seen_keys:
  "fst (foldl dedupe_step ({}, []) ms) = messageKey ` set (snd (foldl dedupe_step ({}, []) ms))"
proof (induction ms rule: rev_induct)
  case Nil
  then show ?case by simp
next
  case (snoc m ms)
  then show ?case by (auto simp: dedupe_step_def Let_def)
qed

lemma dedupeChatMessages_snoc:
  "dedupeChatMessages (ms @ [m]) =
     (if messageKey m \<in> messageKey ` set (dedupeChatMessages ms) then dedupeChatMessages ms
      else if dedupeChatMessages ms \<noteq> [] \<and> nearDuplicate m (last (dedupeChatMessages ms))
        then dedupeChatMessages ms
      else dedupeChatMessages ms @ [m])"
  using dedupe_seen_keys [of ms]
  by (simp add: dedupeChatMessages_def dedupe_step_def Let_def)

lemma dedupeChatMessages_single: "dedupeChatMessages [m] = [m]"
  using dedupeChatMessages_snoc [of "[]" m] by (simp add: dedupeChatMessages_def)

lemma dedupeChatMessages_pair:
  "dedupeChatMessages [m1, m2] =
     (if messageKey m2 = messageKey m1 \<or> nearDuplicate m2 m1 then [m1] else [m1, m2])"
  using dedupeChatMessages_snoc [of "[m1]" m2] by (simp add: dedupeChatMessages_single)

lemma messageKey_eq_timestamp:
  assumes "messageKey m2 = messageKey m1" and "role m1 = role m2"
    and "trim (text_msg m1) = trim (text_msg m2)"
  shows "timestamp m2 = timestamp m1"
proof -
  from assms have "showInt (timestamp m2) = showInt (timestamp m1)"
    by (simp add: messageKey_def)
  then show ?thesis by (rule showInt_inj)
qed

text \<open>
  C6. For two consecutive records of the same role other than \<open>user\<close> with the same
  non-empty trimmed text: at time stamps \<open>t\<close> and \<open>t + 29000\<close> the list of the two
  is reduced to the first, at \<open>t\<close> and \<open>t + 31000\<close> both are kept. And a record
  whose key \<open>role|timestamp|trimmedText\<close> is the key of a record already kept, at
  whatever position, is dropped.
\<close>

theorem dedupeChatMessages_window_and_exact_keys:
  "(role m1 = role m2 \<and> role m1 \<noteq> User \<and> trim (text_msg m1) = trim (text_msg m2) \<and>
    trim (text_msg m1) \<noteq> [] \<and> timestamp m2 = timestamp m1 + 29000
      \<longrightarrow> dedupeChatMessages [m1, m2] = [m1]) \<and>
   (role m1 = role m2 \<and> role m1 \<noteq> User \<and> trim (text_msg m1) = trim (text_msg m2) \<and>
    trim (text_msg m1) \<noteq> [] \<and> timestamp m2 = timestamp m1 + 31000
      \<longrightarrow> dedupeChatMessages [m1, m2] = [m1, m2]) \<and>
   (messageKey m \<in> messageKey ` set (dedupeChatMessages ms)
      \<longrightarrow> dedupeChatMessages (ms @ [m]) = dedupeChatMessages ms)"
proof (intro conjI impI)
  assume "role m1 = role m2 \<and> role m1 \<noteq> User \<and> trim (text_msg m1) = trim (text_msg m2) \<and>
    trim (text_msg m1) \<noteq> [] \<and> timestamp m2 = timestamp m1 + 29000"
  then have "nearDuplicate m2 m1" by (auto simp: nearDuplicate_def)
  then show "dedupeChatMessages [m1, m2] = [m1]" by (simp add: dedupeChatMessages_pair)
next
  assume a: "role m1 = role m2 \<and> role m1 \<noteq> User \<and> trim (text_msg m1) = trim (text_msg m2) \<and>
    trim (text_msg m1) \<noteq> [] \<and> timestamp m2 = timestamp m1 + 31000"
  then have "\<not> nearDuplicate m2 m1" by (auto simp: nearDuplicate_def)
  moreover have "messageKey m2 \<noteq> messageKey m1"
    using a messageKey_eq_timestamp [of m2 m1] by auto
  ultimately show "dedupeChatMessages [m1, m2] = [m1, m2]" by (simp add: dedupeChatMessages_pair)
next
  assume "messageKey m \<in> messageKey ` set (dedupeChatMessages ms)"
  then show "dedupeChatMessages (ms @ [m]) = dedupeChatMessages ms"
    by (simp add: dedupeChatMessages_snoc)
qed

theorem dedupeChatMessages_window_and_exact_keys_witness:
  "dedupeChatMessages
     [\<lparr> id_msg = ''h0'', role = Assistant, text_msg = ''done'', timestamp = 1000 \<rparr>,
      \<lparr> id_msg = ''h1'', role = Assistant, text_msg = ''done '', timestamp = 30000 \<rparr>]
   = [\<lparr> id_msg = ''h0'', role = Assistant, text_msg = ''done'', timestamp = 1000 \<rparr>] \<and>
   dedupeChatMessages
     [\<lparr> id_msg = ''h0'', role = Assistant, text_msg = ''done'', timestamp = 1000 \<rparr>,
      \<lparr> id_msg = ''h1'', role = Assistant, text_msg = ''done '', timestamp = 32000 \<rparr>]
   = [\<lparr> id_msg = ''h0'', role = Assistant, text_msg = ''done'', timestamp = 1000 \<rparr>,
      \<lparr> id_msg = ''h1'', role = Assistant, text_msg = ''done '', timestamp = 32000 \<rparr>] \<and>
   dedupeChatMessages
     ([\<lparr> id_msg = ''h0'', role = Assistant, text_msg = '' done '', timestamp = 1000 \<rparr>,
       \<lparr> id_msg = ''h1'', role = User, text_msg = ''next'', timestamp = 2000 \<rparr>] @
      [\<lparr> id_msg = ''h2'', role = Assistant, text_msg = '' done '', timestamp = 1000 \<rparr>])
   = [\<lparr> id_msg = ''h0'', role = Assistant, text_msg = '' done '', timestamp = 1000 \<rparr>,
      \<lparr> id_msg = ''h1'', role = User, text_msg = ''next'', timestamp = 2000 \<rparr>]"
proof -
  let ?a = "\<lparr> id_msg = ''h0'', role = Assistant, text_msg = ''done'', timestamp = 1000 \<rparr>"
  let ?b = "\<lparr> id_msg = ''h1'', role = Assistant, text_msg = ''done '', timestamp = 30000 \<rparr>"
  let ?c = "\<lparr> id_msg = ''h1'', role = Assistant, text_msg = ''done '', timestamp = 32000 \<rparr>"
  let ?k0 = "\<lparr> id_msg = ''h0'', role = Assistant, text_msg = '' done '', timestamp = 1000 \<rparr>"
  let ?u = "\<lparr> id_msg = ''h1'', role = User, text_msg = ''next'', timestamp = 2000 \<rparr>"
  let ?k2 = "\<lparr> id_msg = ''h2'', role = Assistant, text_msg = '' done '', timestamp = 1000 \<rparr>"
  have t: "trim ''done'' = ''done''" "trim ''done '' = ''done''"
    by (simp_all add: trim_def isWhiteSpace_def)
  have one: "dedupeChatMessages [?a, ?b] = [?a]"
    using dedupeChatMessages_window_and_exact_keys [of ?a ?b] by (simp add: t)
  have two: "dedupeChatMessages [?a, ?c] = [?a, ?c]"
    using dedupeChatMessages_window_and_exact_keys [of ?a ?c] by (simp add: t)
  have n: "\<not> nearDuplicate ?u ?k0" by (simp add: nearDuplicate_def)
  have ku: "messageKey ?u \<noteq> messageKey ?k0"
    by (simp add: messageKey_def roleName_def)
  have kept: "dedupeChatMessages [?k0, ?u] = [?k0, ?u]"
    using n ku by (simp add: dedupeChatMessages_pair)
  have "messageKey ?k2 = messageKey ?k0" by (simp add: messageKey_def)
  then have "messageKey ?k2 \<in> messageKey ` set (dedupeChatMessages [?k0, ?u])"
    by (simp add: kept)
  with dedupeChatMessages_window_and_exact_keys [of ?a ?b ?k2 "[?k0, ?u]"]
  have three: "dedupeChatMessages ([?k0, ?u] @ [?k2]) = [?k0, ?u]"
    by (simp only: kept)
  from one two three show ?thesis by simp
qed

subsection \<open>Credential persistence\<close>

text \<open>
  C7. Once hydration has completed, a persistence pass writes to the plain store the
  current \<open>host\<close>, \<open>port\<close> and \<open>tls\<close> with \<open>token\<close>, \<open>password\<close> and
  \<open>setupCode\<close> set to the empty string; and it deletes the secure-store record when
  token and password are both empty, and otherwise writes to the secure store the
  record made of exactly the token and the password.
\<close>

theorem persistGatewayConfig_splits_secrets:
  assumes "hydrated"
  shows "persistGatewayConfig hydrated s =
     [AsyncStorage_setItem gatewayConfigStorageKey
        \<lparr> host = host (gatewayConfig s), port = port (gatewayConfig s), tls = tls (gatewayConfig s),
          token = [], password = [], setupCode = [] \<rparr>,
      if token (gatewayConfig s) = [] \<and> password (gatewayConfig s) = []
      then SecureStore_deleteItemAsync gatewaySecretsStorageKey
      else SecureStore_setItemAsync gatewaySecretsStorageKey
             \<lparr> token_s = token (gatewayConfig s), password_s = password (gatewayConfig s) \<rparr>]"
  using assms by (cases "gatewayConfig s") (simp add: persistGatewayConfig_def Let_def)

theorem persistGatewayConfig_splits_secrets_witness:
  "persistGatewayConfig True (initialState 0) =
     [AsyncStorage_setItem gatewayConfigStorageKey
        \<lparr> host = ''127.0.0.1'', port = ''18789'', tls = False,
          token = [], password = [], setupCode = [] \<rparr>,
      SecureStore_deleteItemAsync gatewaySecretsStorageKey] \<and>
   persistGatewayConfig True
     ((initialState 0)\<lparr> gatewayConfig :=
        \<lparr> host = ''gw.local'', port = ''443'', tls = True,
          token = ''t'', password = ''p'', setupCode = ''code'' \<rparr> \<rparr>) =
     [AsyncStorage_setItem gatewayConfigStorageKey
        \<lparr> host = ''gw.local'', port = ''443'', tls = True,
          token = [], password = [], setupCode = [] \<rparr>,
      SecureStore_setItemAsync gatewaySecretsStorageKey \<lparr> token_s = ''t'', password_s = ''p'' \<rparr>]"
proof -
  have g: "gatewayConfig (initialState 0) =
      \<lparr> host = ''127.0.0.1'', port = ''18789'', tls = False,
        token = [], password = [], setupCode = [] \<rparr>"
    by (simp add: initialState_def)
  have a: "persistGatewayConfig True (initialState 0) =
     [AsyncStorage_setItem gatewayConfigStorageKey
        \<lparr> host = ''127.0.0.1'', port = ''18789'', tls = False,
          token = [], password = [], setupCode = [] \<rparr>,
      SecureStore_deleteItemAsync gatewaySecretsStorageKey]"
    using persistGatewayConfig_splits_secrets [of True "initialState 0"] by (simp add: g)
  have b: "persistGatewayConfig True
     ((initialState 0)\<lparr> gatewayConfig :=
        \<lparr> host = ''gw.local'', port = ''443'', tls = True,
          token = ''t'', password = ''p'', setupCode = ''code'' \<rparr> \<rparr>) =
     [AsyncStorage_setItem gatewayConfigStorageKey
        \<lparr> host = ''gw.local'', port = ''443'', tls = True,
          token = [], password = [], setupCode = [] \<rparr>,
      SecureStore_setItemAsync gatewaySecretsStorageKey \<lparr> token_s = ''t'', password_s = ''p'' \<rparr>]"
    using persistGatewayConfig_splits_secrets
            [of True "(initialState 0)\<lparr> gatewayConfig :=
                \<lparr> host = ''gw.local'', port = ''443'', tls = True,
                  token = ''t'', password = ''p'', setupCode = ''code'' \<rparr> \<rparr>"]
    by simp
  from a b show ?thesis by simp
qed

subsection \<open>Capability reconnection\<close>

text \<open>
  C3, as stated, fails: when the \<open>talk.mode\<close> request is rejected the \<open>try\<close> block
  is left before \<open>reconnectWithCapabilities\<close> is reached, so the request is the only
  call made.
\<close>

theorem setTalkEnabled_failed_request_skips_reconnect:
  "setTalkEnabled True
     \<lparr> managerAvailable = True, clientAvailable = True,
       talkModeResult = Inl ''UNAVAILABLE: talk mode'', reconnectResult = Inr (),
       stateRefCurrent = initialState 0 \<rparr>
     (initialState 0)
   = Inr ((initialState 0)\<lparr> talkEnabled := True, statusText := ''UNAVAILABLE: talk mode'' \<rparr>,
          [ClientRequest ''talk.mode'' True 8000])"
  by (simp add: setTalkEnabled_def talkTryBlock_def Let_def)

text \<open>
  C3, amended. With a transport manager and an operator client available: if the
  \<open>talk.mode\<close> request fails, the action still resolves, \<open>talkEnabled\<close> ends up
  set to the requested value, the failure is shown in \<open>statusText\<close>, and the request
  is the only call made (no reconnect). If the request succeeds,
  \<open>reconnectWithCapabilities\<close> is called next with a snapshot whose \<open>talkEnabled\<close>
  is the requested value.
\<close>

theorem setTalkEnabled_outcomes:
  assumes "managerAvailable env" and "clientAvailable env"
  shows "(talkModeResult env = Inl err \<longrightarrow>
            setTalkEnabled enabled env prev =
              Inr (prev\<lparr> talkEnabled := enabled, statusText := err \<rparr>,
                   [ClientRequest ''talk.mode'' enabled 8000])) \<and>
         (talkModeResult env = Inr () \<longrightarrow>
            (\<exists>s' snapshot. setTalkEnabled enabled env prev =
                 Inr (s', [ClientRequest ''talk.mode'' enabled 8000, ReconnectWithCapabilities snapshot]) \<and>
               talkEnabled_c snapshot = enabled \<and> talkEnabled s' = enabled))"
  using assms
  by (auto simp: setTalkEnabled_def talkTryBlock_def Let_def buildCapabilityConfig_def
           split: sum.splits)

theorem setTalkEnabled_outcomes_witness:
  "setTalkEnabled False
     \<lparr> managerAvailable = True, clientAvailable = True,
       talkModeResult = Inl ''timeout'', reconnectResult = Inr (),
       stateRefCurrent = initialState 0 \<rparr>
     ((initialState 0)\<lparr> talkEnabled := True \<rparr>)
   = Inr ((initialState 0)\<lparr> talkEnabled := False, statusText := ''timeout'' \<rparr>,
          [ClientRequest ''talk.mode'' False 8000])"
  using setTalkEnabled_outcomes
          [of "\<lparr> managerAvailable = True, clientAvailable = True,
                 talkModeResult = Inl ''timeout'', reconnectResult = Inr (),
                 stateRefCurrent = initialState 0 \<rparr>"
              "''timeout''" False "(initialState 0)\<lparr> talkEnabled := True \<rparr>"]
  by simp

subsection \<open>Session orchestration\<close>

lemma normalize_Nil_iff: "normalizeSessionKeyForDefaults k d = [] \<longleftrightarrow> trim k = []"
  by (auto simp: normalizeSessionKeyForDefaults_def Let_def split: option.splits)

lemma canonicalKey_normalize:
  "trimmedDefaults d \<Longrightarrow> trim k \<noteq> [] \<Longrightarrow> canonicalKey d (normalizeSessionKeyForDefaults k d)"
  by (simp add: canonicalKey_def normalize_idem normalize_Nil_iff)

lemma canonicalKey_trimmed:
  "trimmedDefaults d \<Longrightarrow> canonicalKey d k \<Longrightarrow> trim k = k"
  by (auto simp: canonicalKey_def normalizeSessionKeyForDefaults_def Let_def trimmedDefaults_def
           split: option.splits if_splits)

lemma normalizeSessionOptions_fold:
  "fst (foldl (normalizeSessionOptions_step d) ({}, []) opts)
     = set (snd (foldl (normalizeSessionOptions_step d) ({}, []) opts)) \<and>
   set (snd (foldl (normalizeSessionOptions_step d) ({}, []) opts))
     = {normalizeSessionKeyForDefaults x d | x. x \<in> set opts \<and> trim x \<noteq> []}"
proof (induction opts rule: rev_induct)
  case Nil
  then show ?case by simp
next
  case (snoc x xs)
  then show ?case
    by (auto simp: normalizeSessionOptions_step_def Let_def normalize_Nil_iff)
qed

lemma set_normalizeSessionOptions:
  "set (normalizeSessionOptions opts d)
     = {normalizeSessionKeyForDefaults x d | x. x \<in> set opts \<and> trim x \<noteq> []}"
  by (simp add: normalizeSessionOptions_def normalizeSessionOptions_fold)

lemma normalizeSessionOptions_canonical:
  "trimmedDefaults d \<Longrightarrow> list_all (canonicalKey d) (normalizeSessionOptions opts d)"
  by (auto simp: list_all_iff set_normalizeSessionOptions canonicalKey_normalize)

lemma storeInv_initialState: "storeInv (initialState now)"
  by (simp add: storeInv_def initialState_def trimmedDefaults_def canonicalKey_def
                normalizeSessionKeyForDefaults_def Let_def trim_def isWhiteSpace_def)

lemma orElse_nonempty: "a \<noteq> [] \<Longrightarrow> orElse a b = a"
  by (simp add: orElse_def)

lemma setSessionKey_member:
  assumes "storeInv s" and "key \<in> set (sessionOptions s)"
  shows "setSessionKey key s s = s\<lparr> sessionKey := key \<rparr>"
proof -
  from assms have c: "canonicalKey (sessionDefaults s) key"
    by (simp add: storeInv_def list_all_iff)
  moreover from assms have "trimmedDefaults (sessionDefaults s)" by (simp add: storeInv_def)
  ultimately have t: "trim key = key" by (rule canonicalKey_trimmed [rotated])
  from c have "key \<noteq> []" "normalizeSessionKeyForDefaults key (sessionDefaults s) = key"
    by (simp_all add: canonicalKey_def)
  with t show ?thesis by (simp add: setSessionKey_def Let_def orElse_nonempty)
qed

lemma storeInv_setSessionKey:
  assumes "storeInv s" and "key \<in> set (sessionOptions s)"
  shows "storeInv (setSessionKey key s s)"
  using assms by (simp add: setSessionKey_member) (simp add: storeInv_def list_all_iff)

lemma storeInv_onHello:
  assumes "storeInv s"
  shows "storeInv (onHello hello hrole s)"
proof (cases "hrole = ''operator''")
  case False
  with assms show ?thesis by (simp add: onHello_def)
next
  case True
  show ?thesis
  proof (cases "parseSessionDefaults hello")
    case None
    with assms show ?thesis by (simp add: onHello_def)
  next
    case (Some d)
    then have td: "trimmedDefaults (Some d)"
      by (simp add: trimmedDefaults_def parseSessionDefaults_trimmed)
    from assms have "trim (sessionKey s) = sessionKey s" "sessionKey s \<noteq> []"
      by (auto simp: storeInv_def canonicalKey_def intro: canonicalKey_trimmed)
    then have ne: "trim (sessionKey s) \<noteq> []" by simp
    define k where "k = normalizeSessionKeyForDefaults (sessionKey s) (Some d)"
    have ck: "canonicalKey (Some d) k"
      unfolding k_def using td ne by (rule canonicalKey_normalize)
    then have kne: "k \<noteq> []" by (simp add: canonicalKey_def)
    have co: "list_all (canonicalKey (Some d)) (normalizeSessionOptions (sessionOptions s) (Some d))"
      using td by (rule normalizeSessionOptions_canonical)
    have "onHello hello hrole s =
        s\<lparr> sessionDefaults := Some d, sessionKey := k,
           sessionOptions :=
             (if k \<in> set (normalizeSessionOptions (sessionOptions s) (Some d))
              then normalizeSessionOptions (sessionOptions s) (Some d)
              else k # normalizeSessionOptions (sessionOptions s) (Some d)) \<rparr>"
      using True Some kne
      by (auto simp: onHello_def Let_def k_def [symmetric] orElse_nonempty)
    then show ?thesis
      using td ck co by (simp add: storeInv_def)
  qed
qed

lemma storeInv_refreshSessions:
  assumes "storeInv s"
  shows "storeInv (refreshSessions avail response s s)"
proof (cases "avail")
  case False
  with assms show ?thesis by (simp add: refreshSessions_def)
next
  case True
  show ?thesis
  proof (cases response)
    case (Inl e)
    with assms show ?thesis by (simp add: refreshSessions_def)
  next
    case (Inr sessionRows)
    define d where "d = sessionDefaults s"
    define normalized where
      "normalized = normalizeSessionOptions (filter (\<lambda>key. length key > 0) (map rowKey sessionRows)) d"
    define candidate where
      "candidate = (if length normalized > 0 then normalized else sessionOptions s)"
    from assms have td: "trimmedDefaults d" and ck: "canonicalKey d (sessionKey s)"
      and co: "list_all (canonicalKey d) (sessionOptions s)"
      by (simp_all add: storeInv_def d_def)
    from ck have cur: "orElse (normalizeSessionKeyForDefaults (sessionKey s) d) (sessionKey s) = sessionKey s"
      by (simp add: canonicalKey_def orElse_def)
    have "list_all (canonicalKey d) normalized"
      unfolding normalized_def using td by (rule normalizeSessionOptions_canonical)
    with co have cc: "list_all (canonicalKey d) candidate" by (simp add: candidate_def)
    have sk: "sessionKey (refreshSessions avail response s s) = sessionKey s"
      using True Inr cur by (simp add: refreshSessions_def refreshSessionsUpdate_def Let_def d_def)
    have sd: "sessionDefaults (refreshSessions avail response s s) = d"
      using True Inr by (simp add: refreshSessions_def refreshSessionsUpdate_def Let_def d_def)
    have so: "sessionOptions (refreshSessions avail response s s) =
        (if sessionKey s \<in> set candidate then candidate else sessionKey s # candidate)"
      using True Inr cur
      by (simp add: refreshSessions_def refreshSessionsUpdate_def Let_def d_def
                    candidate_def normalized_def)
    show ?thesis
      using td ck cc by (simp add: storeInv_def sk sd so)
  qed
qed

lemma reachableByRail_storeInv: "reachableByRail now s \<Longrightarrow> storeInv s"
proof (induction rule: reachableByRail.induct)
  case rail_init
  show ?case by (rule storeInv_initialState)
next
  case (rail_setSessionKey s key)
  then show ?case by (simp add: storeInv_setSessionKey)
next
  case (rail_onHello s hello hrole)
  then show ?case by (simp add: storeInv_onHello)
next
  case (rail_refreshSessions s avail response)
  then show ?case by (simp add: storeInv_refreshSessions)
qed

text \<open>
  C5, as stated, fails: \<open>setSessionKey\<close> replaces \<open>sessionKey\<close> and leaves
  \<open>sessionOptions\<close> alone, so after \<open>setSessionKey('work')\<close> in the initial state
  the options are still \<open>['main']\<close>.
\<close>

theorem setSessionKey_leaves_options_without_key:
  "reachable 0 (setSessionKey ''work'' (initialState 0) (initialState 0)) \<and>
   normalizeSessionKeyForDefaults
     (sessionKey (setSessionKey ''work'' (initialState 0) (initialState 0)))
     (sessionDefaults (setSessionKey ''work'' (initialState 0) (initialState 0)))
   \<notin> set (sessionOptions (setSessionKey ''work'' (initialState 0) (initialState 0)))"
proof -
  have r: "reachable 0 (setSessionKey ''work'' (initialState 0) (initialState 0))"
    by (rule reach_setSessionKey) (rule reach_init)
  have t: "trim ''work'' = ''work''" by (simp add: trim_def isWhiteSpace_def)
  have e: "setSessionKey ''work'' (initialState 0) (initialState 0)
             = (initialState 0)\<lparr> sessionKey := ''work'' \<rparr>"
    by (simp add: setSessionKey_def Let_def t orElse_def normalizeSessionKeyForDefaults_def
                  initialState_def)
  have "normalizeSessionKeyForDefaults ''work'' None = ''work''"
    by (simp add: normalizeSessionKeyForDefaults_def Let_def t)
  with r show ?thesis by (simp add: e) (simp add: initialState_def)
qed

text \<open>
  C5, amended. In every state reached from the initial state by \<open>setSessionKey\<close>
  called on one of the keys of \<open>sessionOptions\<close> (as the session rail of the chat
  screen calls it), by the \<open>onHello\<close> handler and by the sessions refresh,
  \<open>sessionOptions\<close> contains the current \<open>sessionKey\<close> in canonical form, also when
  the session list reported by the server omits it.
\<close>

theorem sessionOptions_contains_sessionKey:
  assumes "reachableByRail now s"
  shows "normalizeSessionKeyForDefaults (sessionKey s) (sessionDefaults s) \<in> set (sessionOptions s)"
proof -
  from assms have "storeInv s" by (rule reachableByRail_storeInv)
  then show ?thesis by (simp add: storeInv_def canonicalKey_def)
qed

theorem sessionOptions_contains_sessionKey_witness:
  "reachableByRail 0
     (refreshSessions True (Inr [[(''key'', JStr ''other'')]])
        (onHello [(''snapshot'', JObj [(''sessionDefaults'',
                     JObj [(''defaultAgentId'', JStr ''a''), (''mainKey'', JStr ''k''),
                           (''mainSessionKey'', JStr ''agent:a:k'')])])] ''operator'' (initialState 0))
        (onHello [(''snapshot'', JObj [(''sessionDefaults'',
                     JObj [(''defaultAgentId'', JStr ''a''), (''mainKey'', JStr ''k''),
                           (''mainSessionKey'', JStr ''agent:a:k'')])])] ''operator'' (initialState 0))) \<and>
   normalizeSessionKeyForDefaults
     (sessionKey
       (refreshSessions True (Inr [[(''key'', JStr ''other'')]])
        (onHello [(''snapshot'', JObj [(''sessionDefaults'',
                     JObj [(''defaultAgentId'', JStr ''a''), (''mainKey'', JStr ''k''),
                           (''mainSessionKey'', JStr ''agent:a:k'')])])] ''operator'' (initialState 0))
        (onHello [(''snapshot'', JObj [(''sessionDefaults'',
                     JObj [(''defaultAgentId'', JStr ''a''), (''mainKey'', JStr ''k''),
                           (''mainSessionKey'', JStr ''agent:a:k'')])])] ''operator'' (initialState 0))))
     (sessionDefaults
       (refreshSessions True (Inr [[(''key'', JStr ''other'')]])
        (onHello [(''snapshot'', JObj [(''sessionDefaults'',
                     JObj [(''defaultAgentId'', JStr ''a''), (''mainKey'', JStr ''k''),
                           (''mainSessionKey'', JStr ''agent:a:k'')])])] ''operator'' (initialState 0))
        (onHello [(''snapshot'', JObj [(''sessionDefaults'',
                     JObj [(''defaultAgentId'', JStr ''a''), (''mainKey'', JStr ''k''),
                           (''mainSessionKey'', JStr ''agent:a:k'')])])] ''operator'' (initialState 0))))
   \<in> set (sessionOptions
       (refreshSessions True (Inr [[(''key'', JStr ''other'')]])
        (onHello [(''snapshot'', JObj [(''sessionDefaults'',
                     JObj [(''defaultAgentId'', JStr ''a''), (''mainKey'', JStr ''k''),
                           (''mainSessionKey'', JStr ''agent:a:k'')])])] ''operator'' (initialState 0))
        (onHello [(''snapshot'', JObj [(''sessionDefaults'',
                     JObj [(''defaultAgentId'', JStr ''a''), (''mainKey'', JStr ''k''),
                           (''mainSessionKey'', JStr ''agent:a:k'')])])] ''operator'' (initialState 0))))"
proof -
  let ?hello = "[(''snapshot'', JObj [(''sessionDefaults'',
                     JObj [(''defaultAgentId'', JStr ''a''), (''mainKey'', JStr ''k''),
                           (''mainSessionKey'', JStr ''agent:a:k'')])])]"
  let ?s1 = "onHello ?hello ''operator'' (initialState 0)"
  let ?s2 = "refreshSessions True (Inr [[(''key'', JStr ''other'')]]) ?s1 ?s1"
  have "reachableByRail 0 ?s1" by (rule rail_onHello) (rule rail_init)
  then have r: "reachableByRail 0 ?s2" by (rule rail_refreshSessions)
  from r sessionOptions_contains_sessionKey [OF r] show ?thesis by simp
qed

text \<open>The state of the witness: the server reported only \<open>other\<close>.\<close>

lemma example_after_hello_and_refresh:
  "sessionOptions
     (refreshSessions True (Inr [[(''key'', JStr ''other'')]])
        (onHello [(''snapshot'', JObj [(''sessionDefaults'',
                     JObj [(''defaultAgentId'', JStr ''a''), (''mainKey'', JStr ''k''),
                           (''mainSessionKey'', JStr ''agent:a:k'')])])] ''operator'' (initialState 0))
        (onHello [(''snapshot'', JObj [(''sessionDefaults'',
                     JObj [(''defaultAgentId'', JStr ''a''), (''mainKey'', JStr ''k''),
                           (''mainSessionKey'', JStr ''agent:a:k'')])])] ''operator'' (initialState 0)))
   = [''agent:a:k'', ''other'']"
  by code_simp

end
